theory Spec2Isabelle
  imports Main
begin

section \<open>The query cache of react-query: \<^verbatim>\<open>src/queryCache.js\<close>\<close>

text \<open>
  The theory embeds the entry state machine (\<^verbatim>\<open>switchActions\<close>, \<^verbatim>\<open>queryReducer\<close>),
  the construction of an entry (\<^verbatim>\<open>makeQuery\<close>) and the fetch engine of one entry
  (\<^verbatim>\<open>query.fetch\<close>, \<^verbatim>\<open>tryFetchData\<close>, \<^verbatim>\<open>query.cancel\<close>, \<^verbatim>\<open>prefetchQuery\<close>).
\<close>

subsection \<open>JavaScript values\<close>

text \<open>
  The values the cache stores without looking into them (data, errors, the cancellation
  marker). \<open>JObj n\<close> is a reference to the object numbered \<open>n\<close>: \<^verbatim>\<open>===\<close> on two
  references compares the numbers, so equality of \<open>jsval\<close> is \<^verbatim>\<open>===\<close> (NaN is left out).
\<close>

datatype jsval = JUndefined | JNull | JBool bool | JNum int | JStr string | JObj nat

text \<open>What \<^verbatim>\<open>if (v)\<close> and \<^verbatim>\<open>!v\<close> test.\<close>

fun truthy :: "jsval \<Rightarrow> bool" where
  "truthy JUndefined = False"
| "truthy JNull = False"
| "truthy (JBool b) = b"
| "truthy (JNum n) = (n \<noteq> 0)"
| "truthy (JStr s) = (s \<noteq> [])"
| "truthy (JObj r) = True"

text \<open>What the code throws: \<^verbatim>\<open>throw new Error()\<close> of the reducer, and a TypeError.\<close>

datatype js_error = Error_thrown | TypeError_thrown

subsection \<open>Names imported from \<^verbatim>\<open>./utils\<close>\<close>

text \<open>
  Modelled from the spec: the status constants \<^verbatim>\<open>statusIdle\<close>, \<^verbatim>\<open>statusLoading\<close>,
  \<^verbatim>\<open>statusSuccess\<close>, \<^verbatim>\<open>statusError\<close> are imported from \<^verbatim>\<open>./utils\<close>, which is not among
  the sources. The spec gives the status values as idle, loading, success and error, the
  strings \<^verbatim>\<open>queryReducer\<close> compares \<^verbatim>\<open>status\<close> with.
\<close>

definition statusIdle :: string where "statusIdle = ''idle''"
definition statusLoading :: string where "statusLoading = ''loading''"
definition statusSuccess :: string where "statusSuccess = ''success''"
definition statusError :: string where "statusError = ''error''"

text \<open>
  Modelled from the spec: \<^verbatim>\<open>functionalUpdate\<close> is imported from \<^verbatim>\<open>./utils\<close>. The spec
  applies an updater to the prior value (\<^verbatim>\<open>data = updater(priorData)\<close>, full-state replace
  via \<^verbatim>\<open>updater(priorState)\<close>) and lets \<^verbatim>\<open>retryDelay\<close> be a value or a function of the
  attempt count: an updater is a function, applied to the input, or a value, taken as it is.
\<close>

datatype 'a updater = UFun "'a \<Rightarrow> 'a" | UVal 'a

fun functionalUpdate :: "'a updater \<Rightarrow> 'a \<Rightarrow> 'a" where
  "functionalUpdate (UFun f) x = f x"
| "functionalUpdate (UVal v) x = v"

text \<open>
  Modelled from the spec: \<^verbatim>\<open>cancelledError\<close> is imported from \<^verbatim>\<open>./utils\<close>; the spec calls
  it a sentinel object. It is the object numbered 0.
\<close>

definition cancelledError :: jsval where "cancelledError = JObj 0"

subsection \<open>The visible state of an entry\<close>

text \<open>
  The object \<^verbatim>\<open>query.state\<close>. The four derived flags are absent from the object the Init
  case of \<^verbatim>\<open>switchActions\<close> builds (reading them gives \<^verbatim>\<open>undefined\<close>) until
  \<^verbatim>\<open>queryReducer\<close> assigns them, so they are \<open>jsval\<close>; \<^verbatim>\<open>canFetchMore\<close> is whatever the
  action carries. \<^verbatim>\<open>updatedAt\<close> is a reading of \<^verbatim>\<open>Date.now()\<close>.
\<close>

record state =
  status :: string
  error :: jsval
  isFetching :: bool
  canFetchMore :: jsval
  failureCount :: nat
  isStale :: bool
  markedForGarbageCollection :: bool
  data :: jsval
  updatedAt :: nat
  isLoading :: jsval
  isSuccess :: jsval
  isError :: jsval
  isIdle :: jsval

subsection \<open>Actions\<close>

definition actionInit :: string where "actionInit = ''Init''"
definition actionFailed :: string where "actionFailed = ''Failed''"
definition actionMarkStale :: string where "actionMarkStale = ''MarkStale''"
definition actionMarkGC :: string where "actionMarkGC = ''MarkGC''"
definition actionFetch :: string where "actionFetch = ''Fetch''"
definition actionSuccess :: string where "actionSuccess = ''Success''"
definition actionError :: string where "actionError = ''Error''"
definition actionSetState :: string where "actionSetState = ''SetState''"

text \<open>
  An action is an object with a \<^verbatim>\<open>type\<close> string and the payload of its kind. The fields
  \<open>isStale_a\<close>, \<open>initialData_a\<close>, \<open>canFetchMore_a\<close>, \<open>cancelled_a\<close> and \<open>error_a\<close> are
  the action's \<^verbatim>\<open>isStale\<close>, \<^verbatim>\<open>initialData\<close>, \<^verbatim>\<open>canFetchMore\<close>, \<^verbatim>\<open>cancelled\<close> and
  \<^verbatim>\<open>error\<close> (\<open>cancelled_a\<close> and \<open>hasInitialData\<close> are only tested for truth). The one
  field \<^verbatim>\<open>updater\<close> of the source is applied to the data by Success and to the whole
  state by SetState: \<open>updater\<close> is the former, \<open>stateUpdater\<close> the latter, \<open>None\<close>
  when the action has no updater (\<^verbatim>\<open>undefined\<close>).
\<close>

record action =
  type :: string
  initialStatus :: string
  initialData_a :: jsval
  hasInitialData :: bool
  isStale_a :: bool
  updater :: "jsval updater"
  canFetchMore_a :: jsval
  cancelled_a :: bool
  error_a :: jsval
  stateUpdater :: "state updater option"

text \<open>An action with a type only, as in \<^verbatim>\<open>dispatch({ type: actionFailed })\<close>.\<close>

definition plainAction :: "string \<Rightarrow> action" where
  "plainAction t =
     \<lparr>type = t, initialStatus = [], initialData_a = JUndefined, hasInitialData = False,
      isStale_a = False, updater = UVal JUndefined, canFetchMore_a = JUndefined,
      cancelled_a = False, error_a = JUndefined, stateUpdater = None\<rparr>"

subsection \<open>The transition function\<close>

text \<open>
  \<^verbatim>\<open>switchActions(state, action)\<close>, with the reading of \<^verbatim>\<open>Date.now()\<close> as \<open>now\<close>. The
  object spread \<^verbatim>\<open>{...state, f: v}\<close> is a record update. The default case throws.
  On a SetState action without an updater the source returns \<^verbatim>\<open>undefined\<close>, on which
  \<^verbatim>\<open>queryReducer\<close>, its only caller, throws a TypeError at \<^verbatim>\<open>newState.status\<close>; the
  two are taken together as the TypeError of this case.
\<close>

definition switchActions :: "nat \<Rightarrow> state \<Rightarrow> action \<Rightarrow> js_error + state" where
  "switchActions now s a =
     (if type a = actionInit then
        Inr \<lparr>status = initialStatus a,
             error = JNull,
             isFetching = (\<not> hasInitialData a \<or> initialStatus a = ''loading''),
             canFetchMore = JBool False,
             failureCount = 0,
             isStale = isStale_a a,
             markedForGarbageCollection = False,
             data = initialData_a a,
             updatedAt = (if hasInitialData a then now else 0),
             isLoading = JUndefined, isSuccess = JUndefined,
             isError = JUndefined, isIdle = JUndefined\<rparr>
      else if type a = actionFailed then
        Inr (s\<lparr>failureCount := failureCount s + 1\<rparr>)
      else if type a = actionMarkStale then
        Inr (s\<lparr>isStale := True\<rparr>)
      else if type a = actionMarkGC then
        Inr (s\<lparr>markedForGarbageCollection := True\<rparr>)
      else if type a = actionFetch then
        Inr (s\<lparr>status := (if data s \<noteq> JUndefined then statusSuccess else statusLoading),
               isFetching := True,
               failureCount := 0\<rparr>)
      else if type a = actionSuccess then
        Inr (s\<lparr>status := statusSuccess,
               data := functionalUpdate (updater a) (data s),
               error := JNull,
               isStale := False,
               isFetching := False,
               canFetchMore := canFetchMore_a a,
               updatedAt := now,
               failureCount := 0\<rparr>)
      else if type a = actionError then
        Inr (if \<not> cancelled_a a
             then s\<lparr>isFetching := False, isStale := True,
                    status := statusError, error := error_a a\<rparr>
             else s\<lparr>isFetching := False, isStale := True\<rparr>)
      else if type a = actionSetState then
        (case stateUpdater a of
           None \<Rightarrow> Inl TypeError_thrown
         | Some u \<Rightarrow> Inr (functionalUpdate u s))
      else Inl Error_thrown)"

text \<open>
  \<^verbatim>\<open>queryReducer(state, action)\<close>: the four flags are assigned from the new status,
  over whatever \<^verbatim>\<open>switchActions\<close> returned.
\<close>

definition queryReducer :: "nat \<Rightarrow> state \<Rightarrow> action \<Rightarrow> js_error + state" where
  "queryReducer now s a =
     (case switchActions now s a of
        Inl e \<Rightarrow> Inl e
      | Inr newState \<Rightarrow>
          Inr (newState\<lparr>isLoading := JBool (status newState = ''loading''),
                         isSuccess := JBool (status newState = ''success''),
                         isError := JBool (status newState = ''error''),
                         isIdle := JBool (status newState = ''idle'')\<rparr>))"

subsection \<open>Entries\<close>

text \<open>
  \<^verbatim>\<open>config.retry\<close> is a boolean, a count or a predicate of the failure count and the
  error.
\<close>

datatype retry = RetryBool bool | RetryNum int | RetryFn "nat \<Rightarrow> jsval \<Rightarrow> bool"

text \<open>
  The options of the resolved configuration that the modelled code reads. \<open>enabled\<close>
  is the truth of \<^verbatim>\<open>config.enabled\<close>; \<open>initialData\<close> is the value \<^verbatim>\<open>makeQuery\<close> obtains
  (the option itself, or what it returns when it is a function), \<open>JUndefined\<close> when
  there is none; \<open>cacheTime = None\<close> is \<^verbatim>\<open>Infinity\<close>; \<open>refetchInterval = 0\<close> is no
  interval.
\<close>

record config =
  enabled :: bool
  initialData :: jsval
  retry :: retry
  isDataEqual :: "jsval \<Rightarrow> jsval \<Rightarrow> bool"
  cacheTime :: "nat option"
  refetchInterval :: nat

text \<open>
  A call of the asynchronous body of \<^verbatim>\<open>query.fetch\<close> is suspended at one of three
  places: awaiting the promise of the fetch operation, awaiting the retry timer, or
  awaiting the promise that never settles (a retry while the document is hidden).
\<close>

datatype phase = AwaitAttempt | AwaitTimer | Suspended

text \<open>How a promise settles.\<close>

datatype outcome = Resolved jsval | Rejected jsval

text \<open>What an entry does to its surroundings.\<close>

datatype effect = QueryFnCalled | CancelHookCalled | GlobalListenersNotified

text \<open>
  The entry object \<^verbatim>\<open>query\<close>. Promises of \<^verbatim>\<open>query.fetch\<close> are numbered; \<open>promise\<close> is
  \<^verbatim>\<open>query.promise\<close> (\<open>None\<close> when the property is deleted), \<open>cancelled\<close> is
  \<^verbatim>\<open>query.cancelled\<close>, \<open>cancelPromises\<close> tells whether the cancel hook is installed.
  The last four fields are not properties of the object: \<open>activations\<close> lists the running
  calls of the body of \<^verbatim>\<open>query.fetch\<close> (by the number of their promise) with the place
  where each is suspended, \<open>settled\<close> the promises that have settled (newest first),
  \<open>nextPromise\<close> the number of the next promise, \<open>trace\<close> the effects so far.
  Subscribers, their callbacks and the stale and GC timers are not modelled.
\<close>

record query =
  config :: config
  state :: state
  promise :: "nat option"
  cancelled :: jsval
  cancelPromises :: bool
  shouldContinueRetryOnFocus :: bool
  refetchIntervalId :: "nat option"
  currentRefetchInterval :: "nat option"
  activations :: "(nat \<times> phase) list"
  settled :: "(nat \<times> outcome) list"
  nextPromise :: nat
  trace :: "effect list"

text \<open>
  \<^verbatim>\<open>makeQuery\<close> passes \<^verbatim>\<open>undefined\<close> as the prior state of the Init action, whose case
  does not read it; \<open>noState\<close> stands for that argument.
\<close>

definition noState :: state where
  "noState =
     \<lparr>status = [], error = JUndefined, isFetching = False, canFetchMore = JUndefined,
      failureCount = 0, isStale = False, markedForGarbageCollection = False,
      data = JUndefined, updatedAt = 0, isLoading = JUndefined, isSuccess = JUndefined,
      isError = JUndefined, isIdle = JUndefined\<rparr>"

definition makeQuery :: "nat \<Rightarrow> config \<Rightarrow> js_error + query" where
  "makeQuery now cfg =
     (let hasInitialData' = (initialData cfg \<noteq> JUndefined);
          isStale' = (\<not> enabled cfg \<or> \<not> hasInitialData');
          initialStatus' =
            (if hasInitialData' then statusSuccess
             else if enabled cfg then statusLoading
             else statusIdle)
      in case queryReducer now noState
                ((plainAction actionInit)
                   \<lparr>initialStatus := initialStatus',
                    initialData_a := initialData cfg,
                    hasInitialData := hasInitialData',
                    isStale_a := isStale'\<rparr>) of
           Inl e \<Rightarrow> Inl e
         | Inr s \<Rightarrow>
             Inr \<lparr>config = cfg, state = s, promise = None, cancelled = JUndefined,
                  cancelPromises = False, shouldContinueRetryOnFocus = False,
                  refetchIntervalId = None, currentRefetchInterval = None,
                  activations = [], settled = [], nextPromise = 1, trace = []\<rparr>)"

definition notifyGlobalListeners :: "query \<Rightarrow> query" where
  "notifyGlobalListeners q = q\<lparr>trace := trace q @ [GlobalListenersNotified]\<rparr>"

text \<open>
  \<^verbatim>\<open>dispatch(action)\<close>: the state is replaced by what the reducer returns and the cache
  listeners are notified; when the reducer throws, the exception goes on to the caller
  and the entry is not changed.
\<close>

definition dispatch :: "nat \<Rightarrow> action \<Rightarrow> query \<Rightarrow> js_error + query" where
  "dispatch now a q =
     (case queryReducer now (state q) a of
        Inl e \<Rightarrow> Inl e
      | Inr s \<Rightarrow> Inr (notifyGlobalListeners (q\<lparr>state := s\<rparr>)))"

definition invalidate :: "nat \<Rightarrow> query \<Rightarrow> js_error + query" where
  "invalidate now q = dispatch now (plainAction actionMarkStale) q"

definition scheduleGarbageCollection :: "nat \<Rightarrow> query \<Rightarrow> js_error + query" where
  "scheduleGarbageCollection now q =
     (if cacheTime (config q) = None then Inr q
      else dispatch now (plainAction actionMarkGC) q)"

definition heal :: "query \<Rightarrow> query" where
  "heal q = q\<lparr>cancelled := JNull\<rparr>"

definition cancelInterval :: "query \<Rightarrow> query" where
  "cancelInterval q = q\<lparr>refetchIntervalId := None, currentRefetchInterval := None\<rparr>"

definition cancel :: "query \<Rightarrow> query" where
  "cancel q =
     (let q1 = cancelInterval (q\<lparr>cancelled := cancelledError\<rparr>);
          q2 = (if cancelPromises q1 then q1\<lparr>trace := trace q1 @ [CancelHookCalled]\<rparr> else q1)
      in notifyGlobalListeners (q2\<lparr>promise := None\<rparr>))"

definition setState :: "nat \<Rightarrow> state updater option \<Rightarrow> query \<Rightarrow> js_error + query" where
  "setState now u q = dispatch now ((plainAction actionSetState)\<lparr>stateUpdater := u\<rparr>) q"

definition setData :: "nat \<Rightarrow> jsval updater \<Rightarrow> query \<Rightarrow> js_error + query" where
  "setData now u q = dispatch now ((plainAction actionSuccess)\<lparr>updater := u\<rparr>) q"

subsection \<open>The fetch engine\<close>

text \<open>
  The asynchronous code runs in steps: from a call or the settlement of what it awaits
  to the next \<^verbatim>\<open>await\<close> that has to wait. Each function below is one such step; the
  microtask hops inside a step (a settled promise handed from one \<^verbatim>\<open>async\<close> function to
  its caller) are taken together, and a fetch operation that throws at once is taken as
  one whose promise rejects. The reducer returns on every action the engine dispatches
  (lemma \<open>step_returns\<close> below), so the branches that pass on its exception are taken
  only by \<^verbatim>\<open>setState\<close> called without an updater.

  The retry test of \<^verbatim>\<open>tryFetchData\<close>:
  \<^verbatim>\<open>retry === true || failureCount <= retry || (typeof retry === 'function' && retry(failureCount, error))\<close>.
  In \<^verbatim>\<open><=\<close> a boolean counts as 0 or 1 and a function as NaN.
\<close>

fun shouldRetry :: "retry \<Rightarrow> nat \<Rightarrow> jsval \<Rightarrow> bool" where
  "shouldRetry (RetryBool b) n err = (b \<or> int n \<le> (if b then 1 else 0))"
| "shouldRetry (RetryNum k) n err = (int n \<le> k)"
| "shouldRetry (RetryFn f) n err = f n err"

definition phaseOf :: "query \<Rightarrow> nat \<Rightarrow> phase option" where
  "phaseOf q p = map_of (activations q) p"

definition setPhase :: "nat \<Rightarrow> phase \<Rightarrow> query \<Rightarrow> query" where
  "setPhase p ph q =
     q\<lparr>activations := map (\<lambda>(i, old). if i = p then (i, ph) else (i, old)) (activations q)\<rparr>"

text \<open>The call of the body of \<^verbatim>\<open>query.fetch\<close> with promise \<open>p\<close> ends.\<close>

definition finish :: "nat \<Rightarrow> outcome \<Rightarrow> query \<Rightarrow> query" where
  "finish p out q =
     q\<lparr>activations := filter (\<lambda>(i, ph). i \<noteq> p) (activations q),
       settled := (p, out) # settled q\<rparr>"

text \<open>
  \<^verbatim>\<open>tryFetchData\<close> up to \<^verbatim>\<open>await promise\<close>: the fetch operation is called and the cancel
  hook installed.
\<close>

definition tryFetchData :: "query \<Rightarrow> query" where
  "tryFetchData q = q\<lparr>cancelPromises := True, trace := trace q @ [QueryFnCalled]\<rparr>"

text \<open>
  The body of \<^verbatim>\<open>query.fetch\<close> after \<^verbatim>\<open>await tryFetchData(...)\<close> returned \<open>v\<close>: the data
  are committed through \<^verbatim>\<open>setData\<close>, \<^verbatim>\<open>query.promise\<close> is deleted, the promise resolves.
\<close>

definition fetch_then :: "nat \<Rightarrow> nat \<Rightarrow> jsval \<Rightarrow> query \<Rightarrow> js_error + query" where
  "fetch_then now p v q =
     (case setData now (UFun (\<lambda>old. if isDataEqual (config q) old v then old else v)) q of
        Inl e \<Rightarrow> Inl e
      | Inr q1 \<Rightarrow> Inr (finish p (Resolved v) (q1\<lparr>promise := None\<rparr>)))"

text \<open>
  The \<^verbatim>\<open>catch\<close> of the body of \<^verbatim>\<open>query.fetch\<close>: the Error action is dispatched with
  \<^verbatim>\<open>cancelled: error === query.cancelled\<close>, \<^verbatim>\<open>query.promise\<close> is deleted, and the error is
  thrown again unless it is \<^verbatim>\<open>query.cancelled\<close> (then the promise resolves with
  \<^verbatim>\<open>undefined\<close>).
\<close>

definition fetch_catch :: "nat \<Rightarrow> nat \<Rightarrow> jsval \<Rightarrow> query \<Rightarrow> js_error + query" where
  "fetch_catch now p err q =
     (case dispatch now
             ((plainAction actionError)\<lparr>cancelled_a := (err = cancelled q), error_a := err\<rparr>) q of
        Inl e \<Rightarrow> Inl e
      | Inr q1 \<Rightarrow>
          (let q2 = q1\<lparr>promise := None\<rparr>
           in Inr (finish p (if err \<noteq> cancelled q2 then Rejected err
                             else Resolved JUndefined) q2)))"

text \<open>
  \<^verbatim>\<open>tryFetchData\<close> after the promise of the fetch operation resolved with \<open>v\<close>.
\<close>

definition tryFetchData_then :: "nat \<Rightarrow> nat \<Rightarrow> jsval \<Rightarrow> query \<Rightarrow> js_error + query" where
  "tryFetchData_then now p v q =
     (let q1 = q\<lparr>shouldContinueRetryOnFocus := False, cancelPromises := False\<rparr>
      in if truthy (cancelled q1) then fetch_catch now p (cancelled q1) q1
         else fetch_then now p v q1)"

text \<open>
  The \<^verbatim>\<open>catch\<close> of \<^verbatim>\<open>tryFetchData\<close>, the promise of the fetch operation having
  rejected with \<open>err\<close>; \<open>visible\<close> is what \<^verbatim>\<open>isDocumentVisible()\<close> returns.
\<close>

definition tryFetchData_catch ::
    "nat \<Rightarrow> bool \<Rightarrow> nat \<Rightarrow> jsval \<Rightarrow> query \<Rightarrow> js_error + query" where
  "tryFetchData_catch now visible p err q =
     (let q1 = q\<lparr>cancelPromises := False\<rparr>
      in if truthy (cancelled q1) then fetch_catch now p (cancelled q1) q1
         else case dispatch now (plainAction actionFailed) q1 of
                Inl e \<Rightarrow> Inl e
              | Inr q2 \<Rightarrow>
                  if shouldRetry (retry (config q2)) (failureCount (state q2)) err then
                    if \<not> visible
                    then Inr (setPhase p Suspended (q2\<lparr>shouldContinueRetryOnFocus := True\<rparr>))
                    else Inr (setPhase p AwaitTimer (q2\<lparr>shouldContinueRetryOnFocus := False\<rparr>))
                  else fetch_catch now p err q2)"

text \<open>The callback of the retry timer.\<close>

definition retryTimeout :: "nat \<Rightarrow> nat \<Rightarrow> query \<Rightarrow> js_error + query" where
  "retryTimeout now p q =
     (if truthy (cancelled q) then fetch_catch now p (cancelled q) q
      else Inr (setPhase p AwaitAttempt (tryFetchData q)))"

text \<open>
  \<^verbatim>\<open>query.fetch()\<close> up to its return: with a promise in \<^verbatim>\<open>query.promise\<close> nothing is
  done; otherwise the marker is cleared, the Fetch action dispatched and the first attempt
  started. What the call returns resolves with \<open>promise\<close> of the entry returned here.
\<close>

definition fetch :: "nat \<Rightarrow> query \<Rightarrow> js_error + query" where
  "fetch now q =
     (case promise q of
        Some p \<Rightarrow> Inr q
      | None \<Rightarrow>
          (case dispatch now (plainAction actionFetch) (q\<lparr>cancelled := JNull\<rparr>) of
             Inl e \<Rightarrow> Inl e
           | Inr q2 \<Rightarrow>
               Inr ((tryFetchData q2)
                      \<lparr>promise := Some (nextPromise q2),
                       activations := activations q2 @ [(nextPromise q2, AwaitAttempt)],
                       nextPromise := Suc (nextPromise q2)\<rparr>)))"

subsection \<open>Runs of an entry\<close>

text \<open>
  What happens to an entry, one step at a time: calls of its methods, and the
  settlements the running calls wait for. A settlement or timer that no running call
  waits for does not happen; the step leaves the entry as it is.
\<close>

datatype event =
    EvFetch
  | EvResolved nat jsval
  | EvRejected nat jsval bool
  | EvRetryTimer nat
  | EvCancel
  | EvSetData "jsval updater"
  | EvSetState "state updater option"
  | EvInvalidate
  | EvMarkGC
  | EvHeal

fun step :: "nat \<Rightarrow> event \<Rightarrow> query \<Rightarrow> js_error + query" where
  "step now EvFetch q = fetch now q"
| "step now (EvResolved p v) q =
     (if phaseOf q p = Some AwaitAttempt then tryFetchData_then now p v q else Inr q)"
| "step now (EvRejected p err visible) q =
     (if phaseOf q p = Some AwaitAttempt then tryFetchData_catch now visible p err q else Inr q)"
| "step now (EvRetryTimer p) q =
     (if phaseOf q p = Some AwaitTimer then retryTimeout now p q else Inr q)"
| "step now EvCancel q = Inr (cancel q)"
| "step now (EvSetData u) q = setData now u q"
| "step now (EvSetState u) q = setState now u q"
| "step now EvInvalidate q = invalidate now q"
| "step now EvMarkGC q = scheduleGarbageCollection now q"
| "step now EvHeal q = Inr (heal q)"

text \<open>A run: the events in order, each with the clock reading at its time.\<close>

fun run :: "query \<Rightarrow> (nat \<times> event) list \<Rightarrow> js_error + query" where
  "run q [] = Inr q"
| "run q ((now, ev) # evs) =
     (case step now ev q of Inl e \<Rightarrow> Inl e | Inr q' \<Rightarrow> run q' evs)"

text \<open>A run of a new entry.\<close>

definition runNew :: "nat \<Rightarrow> config \<Rightarrow> (nat \<times> event) list \<Rightarrow> js_error + query" where
  "runNew now cfg evs = (case makeQuery now cfg of Inl e \<Rightarrow> Inl e | Inr q \<Rightarrow> run q evs)"

subsection \<open>The cache directory\<close>

text \<open>
  \<^verbatim>\<open>queryCache.buildQuery\<close> on the client (\<^verbatim>\<open>isServer\<close> false), for one key:
  \<open>found\<close> is the entry stored under the key's hash, \<open>cfg\<close> the merged configuration,
  \<open>intervalId\<close> what \<^verbatim>\<open>setInterval\<close> returns.
\<close>

definition buildQuery :: "nat \<Rightarrow> nat \<Rightarrow> config \<Rightarrow> query option \<Rightarrow> js_error + query" where
  "buildQuery now intervalId cfg found =
     (case (case found of
              Some q \<Rightarrow> Inr (q\<lparr>config := cfg\<rparr>)
            | None \<Rightarrow>
                (case makeQuery now cfg of
                   Inl e \<Rightarrow> Inl e
                 | Inr q \<Rightarrow>
                     if truthy (data (state q))
                     then scheduleGarbageCollection now (heal q)
                     else Inr q)) of
        Inl e \<Rightarrow> Inl e
      | Inr q \<Rightarrow>
          (let q1 = cancelInterval q
           in if refetchInterval cfg \<noteq> 0
              then Inr (q1\<lparr>currentRefetchInterval := Some (refetchInterval cfg),
                          refetchIntervalId := Some intervalId\<rparr>)
              else Inr q1))"

text \<open>
  \<^verbatim>\<open>queryCache.prefetchQuery\<close> up to \<^verbatim>\<open>await query.fetch()\<close>: the entry is built and
  fetched; the call waits for \<open>promise\<close> of the entry returned.
\<close>

definition prefetchQuery :: "nat \<Rightarrow> nat \<Rightarrow> config \<Rightarrow> query option \<Rightarrow> js_error + query" where
  "prefetchQuery now intervalId cfg found =
     (case buildQuery now intervalId cfg found of
        Inl e \<Rightarrow> Inl e
      | Inr q \<Rightarrow> fetch now q)"

text \<open>
  \<^verbatim>\<open>prefetchQuery\<close> after the \<^verbatim>\<open>await\<close>: how the promise it returned settles, once
  the promise \<open>p\<close> it waits for has settled and with the entry \<open>q\<close> as it is then
  (\<open>None\<close>: \<open>p\<close> has not settled, the call still waits).
\<close>

definition prefetchQuery_then :: "bool \<Rightarrow> nat \<Rightarrow> query \<Rightarrow> outcome option" where
  "prefetchQuery_then throwOnError p q =
     (case map_of (settled q) p of
        None \<Rightarrow> None
      | Some (Resolved v) \<Rightarrow> Some (Resolved (data (state q)))
      | Some (Rejected err) \<Rightarrow>
          if throwOnError then Some (Rejected err)
          else Some (Resolved (data (state q))))"

subsection \<open>Observations and example entries\<close>

text \<open>What a result shows when the code returned, \<open>None\<close> when it threw.\<close>

definition observe :: "('a \<Rightarrow> 'b) \<Rightarrow> js_error + 'a \<Rightarrow> 'b option" where
  "observe f r = (case r of Inl e \<Rightarrow> None | Inr x \<Rightarrow> Some (f x))"

text \<open>
  The events that belong to fetching: everything but \<^verbatim>\<open>cancel\<close> and the two direct
  writes \<^verbatim>\<open>setData\<close> and \<^verbatim>\<open>setState\<close>.
\<close>

fun lifecycle :: "event \<Rightarrow> bool" where
  "lifecycle EvCancel = False"
| "lifecycle (EvSetData u) = False"
| "lifecycle (EvSetState u) = False"
| "lifecycle ev = True"

text \<open>
  The flag \<^verbatim>\<open>isFetching\<close> agrees with \<^verbatim>\<open>query.promise\<close>, and the only running call of
  the body of \<^verbatim>\<open>query.fetch\<close> is the one of that promise.
\<close>

definition consistent :: "query \<Rightarrow> bool" where
  "consistent q =
     (case promise q of
        None \<Rightarrow> \<not> isFetching (state q) \<and> activations q = []
      | Some p \<Rightarrow> isFetching (state q) \<and> map fst (activations q) = [p])"


text \<open>
  An enabled entry without initial data that retries twice, and variants of it: a
  disabled one, and one with a refetch interval.
\<close>

definition exampleConfig :: config where
  "exampleConfig =
     \<lparr>enabled = True, initialData = JUndefined, retry = RetryNum 2,
      isDataEqual = (\<lambda>old new. old = new), cacheTime = Some 300000, refetchInterval = 0\<rparr>"

definition disabledConfig :: config where
  "disabledConfig = exampleConfig\<lparr>enabled := False\<rparr>"

definition intervalConfig :: config where
  "intervalConfig = exampleConfig\<lparr>refetchInterval := 1000\<rparr>"

text \<open>
  The run of a fetch whose operation rejects on each of its three attempts with \<open>err\<close>,
  the document visible throughout; the promise of the fetch has the number \<open>p\<close>.
\<close>

definition threeFailures :: "nat \<Rightarrow> jsval \<Rightarrow> (nat \<times> event) list" where
  "threeFailures p err =
     [(1, EvFetch), (2, EvRejected p err True), (3, EvRetryTimer p),
      (4, EvRejected p err True), (5, EvRetryTimer p), (6, EvRejected p err True)]"

text \<open>How often the fetch operation has been called.\<close>

definition calls :: "query \<Rightarrow> nat" where
  "calls q = count_list (trace q) QueryFnCalled"

section \<open>Properties of the transition function\<close>

lemmas action_names = actionInit_def actionFailed_def actionMarkStale_def actionMarkGC_def
  actionFetch_def actionSuccess_def actionError_def actionSetState_def

lemmas status_names = statusIdle_def statusLoading_def statusSuccess_def statusError_def

lemma switchActions_Init_prior:
  "type a = actionInit \<Longrightarrow> switchActions now s a = switchActions now s' a"
  by (simp add: switchActions_def)

text \<open>
  C1. On an Error action the transition function returns a state that is not fetching
  and is stale; when the action is not marked cancelled the status is \<^verbatim>\<open>'error'\<close> and the
  error is the action's, and when it is marked cancelled status and error are those of the
  prior state.
\<close>

theorem error_transition:
  assumes "type a = actionError"
  shows "\<exists>s'. switchActions now s a = Inr s'
           \<and> isFetching s' = False \<and> isStale s' = True
           \<and> status s' = (if cancelled_a a then status s else ''error'')
           \<and> error s' = (if cancelled_a a then error s else error_a a)"
  using assms by (simp add: switchActions_def action_names statusError_def)

theorem error_transition_witness:
  "\<exists>s'. switchActions 5 (noState\<lparr>status := ''success'', error := JNull\<rparr>)
            ((plainAction actionError)\<lparr>cancelled_a := True, error_a := JObj 0\<rparr>) = Inr s'
        \<and> isFetching s' = False \<and> isStale s' = True
        \<and> status s' = ''success'' \<and> error s' = JNull"
  using error_transition [of "(plainAction actionError)\<lparr>cancelled_a := True, error_a := JObj 0\<rparr>"
      5 "noState\<lparr>status := ''success'', error := JNull\<rparr>"]
  by (simp add: plainAction_def)

text \<open>
  C6, as the claim states it, fails: \<^verbatim>\<open>updatedAt\<close> does not change only on a data
  commit. \<^verbatim>\<open>query.setState\<close> on a new entry, with an updater that writes the field,
  changes it from 0 to 7; no Success action is dispatched and the entry has no data.
\<close>

theorem setState_changes_updatedAt:
  "observe (updatedAt \<circ> state) (runNew 0 exampleConfig []) = Some 0
   \<and> observe (updatedAt \<circ> state)
       (runNew 0 exampleConfig
          [(5, EvSetState (Some (UFun (\<lambda>s. s\<lparr>updatedAt := 7\<rparr>))))]) = Some 7
   \<and> observe (data \<circ> state)
       (runNew 0 exampleConfig
          [(5, EvSetState (Some (UFun (\<lambda>s. s\<lparr>updatedAt := 7\<rparr>))))]) = Some JUndefined"
  by (simp add: observe_def runNew_def makeQuery_def exampleConfig_def queryReducer_def
      switchActions_def plainAction_def action_names status_names setState_def dispatch_def
      notifyGlobalListeners_def Let_def)

text \<open>
  C6, amended. The Failed, MarkStale, MarkGC, Fetch and Error transitions (cancelled
  or not) leave \<^verbatim>\<open>updatedAt\<close> as it was, and the Success transition sets it to the clock
  reading. A transition that changes \<^verbatim>\<open>updatedAt\<close> is an Init, a Success or a SetState
  (whose updater replaces the whole state, \<^verbatim>\<open>updatedAt\<close> included).
\<close>

theorem updatedAt_transitions:
  "(type a \<in> {actionFailed, actionMarkStale, actionMarkGC, actionFetch, actionError}
      \<longrightarrow> observe updatedAt (switchActions now s a) = Some (updatedAt s)
        \<and> observe updatedAt (queryReducer now s a) = Some (updatedAt s))
   \<and> (type a = actionSuccess
      \<longrightarrow> observe updatedAt (switchActions now s a) = Some now
        \<and> observe updatedAt (queryReducer now s a) = Some now)
   \<and> (queryReducer now s a = Inr s' \<and> updatedAt s' \<noteq> updatedAt s
      \<longrightarrow> type a \<in> {actionInit, actionSuccess, actionSetState})"
  by (auto simp: observe_def queryReducer_def switchActions_def action_names
      split: if_splits sum.splits option.splits)

theorem updatedAt_transitions_witness:
  "observe updatedAt
     (queryReducer 9 (noState\<lparr>updatedAt := 4\<rparr>)
        ((plainAction actionError)\<lparr>error_a := JStr ''boom''\<rparr>)) = Some 4
   \<and> observe updatedAt
       (queryReducer 9 (noState\<lparr>updatedAt := 4\<rparr>) (plainAction actionSuccess)) = Some 9
   \<and> (\<exists>s'. queryReducer 9 (noState\<lparr>updatedAt := 4\<rparr>) (plainAction actionSuccess) = Inr s'
         \<and> updatedAt s' \<noteq> updatedAt (noState\<lparr>updatedAt := 4\<rparr>)
         \<and> type (plainAction actionSuccess)
             \<in> {actionInit, actionSuccess, actionSetState})"
proof -
  let ?s = "noState\<lparr>updatedAt := 4\<rparr>"
  obtain s' where s': "queryReducer 9 ?s (plainAction actionSuccess) = Inr s'"
      "updatedAt s' = 9"
    by (simp add: queryReducer_def switchActions_def plainAction_def action_names)
  from updatedAt_transitions [of "(plainAction actionError)\<lparr>error_a := JStr ''boom''\<rparr>"
      9 ?s s']
    updatedAt_transitions [of "plainAction actionSuccess" 9 ?s s'] s'
  show ?thesis by (simp add: plainAction_def action_names noState_def)
qed

text \<open>
  C7. An action whose type is none of the eight known ones makes the transition function,
  and with it the reducer, throw; no state is returned.
\<close>

theorem unknown_action_throws:
  assumes "type a \<notin> {actionInit, actionFailed, actionMarkStale, actionMarkGC, actionFetch,
             actionSuccess, actionError, actionSetState}"
  shows "switchActions now s a = Inl Error_thrown \<and> queryReducer now s a = Inl Error_thrown"
  using assms by (simp add: switchActions_def queryReducer_def)

theorem unknown_action_throws_witness:
  "switchActions 0 noState (plainAction ''Refetch'') = Inl Error_thrown
   \<and> queryReducer 0 noState (plainAction ''Refetch'') = Inl Error_thrown"
  using unknown_action_throws [of "plainAction ''Refetch''" 0 noState]
  by (simp add: plainAction_def action_names)

text \<open>
  C9. Whatever the prior state and the action (a SetState with any updater included),
  a state returned by the reducer has each of the four derived flags equal to the
  comparison of its status with the flag's status string, and at most one of them is true.
\<close>

theorem derived_flags:
  assumes "queryReducer now s a = Inr s'"
  shows "isLoading s' = JBool (status s' = ''loading'')
       \<and> isSuccess s' = JBool (status s' = ''success'')
       \<and> isError s' = JBool (status s' = ''error'')
       \<and> isIdle s' = JBool (status s' = ''idle'')
       \<and> length (filter (\<lambda>v. v = JBool True)
            [isLoading s', isSuccess s', isError s', isIdle s']) \<le> 1"
  using assms by (auto simp: queryReducer_def split: sum.splits)

theorem derived_flags_witness:
  "\<exists>s'. queryReducer 0 noState
          ((plainAction actionSetState)
             \<lparr>stateUpdater := Some (UFun (\<lambda>s. s\<lparr>status := ''error'', isLoading := JBool True,
                                                  isIdle := JNum 7\<rparr>))\<rparr>) = Inr s'
       \<and> isLoading s' = JBool False \<and> isSuccess s' = JBool False
       \<and> isError s' = JBool True \<and> isIdle s' = JBool False"
proof -
  let ?a = "(plainAction actionSetState)
             \<lparr>stateUpdater := Some (UFun (\<lambda>s. s\<lparr>status := ''error'', isLoading := JBool True,
                                                  isIdle := JNum 7\<rparr>))\<rparr>"
  obtain s' where r: "queryReducer 0 noState ?a = Inr s'" "status s' = ''error''"
    by (simp add: queryReducer_def switchActions_def plainAction_def action_names)
  from derived_flags [OF r(1)] r show ?thesis by simp
qed

section \<open>Construction of an entry\<close>

lemma makeQuery_new:
  "\<exists>q. makeQuery now cfg = Inr q \<and> promise q = None \<and> activations q = [] \<and> trace q = []
       \<and> nextPromise q = 1 \<and> config q = cfg \<and> settled q = [] \<and> cancelPromises q = False"
  by (simp add: makeQuery_def queryReducer_def switchActions_def plainAction_def action_names
      Let_def)

text \<open>
  What the code does at construction: the new entry is fetching exactly when it has no
  initial data, whether it is enabled or not (its status is then \<^verbatim>\<open>'loading'\<close> when
  enabled and \<^verbatim>\<open>'idle'\<close> when not).
\<close>

lemma makeQuery_isFetching:
  "observe (isFetching \<circ> state) (makeQuery now cfg) = Some (initialData cfg = JUndefined)"
  by (simp add: observe_def makeQuery_def queryReducer_def switchActions_def plainAction_def
      action_names status_names Let_def)

lemma makeQuery_status:
  "observe (status \<circ> state) (makeQuery now cfg) =
     Some (if initialData cfg \<noteq> JUndefined then ''success''
           else if enabled cfg then ''loading'' else ''idle'')"
  by (simp add: observe_def makeQuery_def queryReducer_def switchActions_def plainAction_def
      action_names status_names Let_def)

text \<open>
  C2. The claim: the state built at construction is fetching iff there is no initial data
  and the entry is enabled. The code at a disabled entry without initial data: the status
  is \<^verbatim>\<open>'idle'\<close> and \<^verbatim>\<open>isFetching\<close> is true, where the claim has it false. In
  \<^verbatim>\<open>!action.hasInitialData || action.initialStatus === 'loading'\<close> the second disjunct
  (no initial data and enabled, as \<^verbatim>\<open>makeQuery\<close> sets the status) is absorbed by the first.
\<close>

theorem disabled_entry_isFetching:
  "observe (isFetching \<circ> state) (makeQuery 0 disabledConfig) = Some True
   \<and> observe (status \<circ> state) (makeQuery 0 disabledConfig) = Some ''idle''"
  by (simp add: observe_def makeQuery_def queryReducer_def switchActions_def plainAction_def
      action_names status_names Let_def disabledConfig_def exampleConfig_def)

theorem disabled_entry_isFetching_witness:
  "observe (isFetching \<circ> state) (makeQuery 0 disabledConfig)
     \<noteq> Some (initialData disabledConfig = JUndefined \<and> enabled disabledConfig)"
  using disabled_entry_isFetching by (simp add: disabledConfig_def exampleConfig_def)

section \<open>Properties of the fetch engine\<close>

subsection \<open>What the reducer returns on the actions the engine dispatches\<close>

lemma queryReducer_Failed:
  "queryReducer now s (plainAction actionFailed) =
     Inr (s\<lparr>failureCount := failureCount s + 1,
            isLoading := JBool (status s = ''loading''),
            isSuccess := JBool (status s = ''success''),
            isError := JBool (status s = ''error''),
            isIdle := JBool (status s = ''idle'')\<rparr>)"
  by (simp add: queryReducer_def switchActions_def plainAction_def action_names)

lemma queryReducer_MarkStale:
  "queryReducer now s (plainAction actionMarkStale) =
     Inr (s\<lparr>isStale := True,
            isLoading := JBool (status s = ''loading''),
            isSuccess := JBool (status s = ''success''),
            isError := JBool (status s = ''error''),
            isIdle := JBool (status s = ''idle'')\<rparr>)"
  by (simp add: queryReducer_def switchActions_def plainAction_def action_names)

lemma queryReducer_MarkGC:
  "queryReducer now s (plainAction actionMarkGC) =
     Inr (s\<lparr>markedForGarbageCollection := True,
            isLoading := JBool (status s = ''loading''),
            isSuccess := JBool (status s = ''success''),
            isError := JBool (status s = ''error''),
            isIdle := JBool (status s = ''idle'')\<rparr>)"
  by (simp add: queryReducer_def switchActions_def plainAction_def action_names)

lemma queryReducer_Fetch:
  "queryReducer now s (plainAction actionFetch) =
     Inr (s\<lparr>status := (if data s \<noteq> JUndefined then ''success'' else ''loading''),
            isFetching := True, failureCount := 0,
            isLoading := JBool (data s = JUndefined),
            isSuccess := JBool (data s \<noteq> JUndefined),
            isError := JBool False, isIdle := JBool False\<rparr>)"
  by (simp add: queryReducer_def switchActions_def plainAction_def action_names status_names)

lemma queryReducer_Success:
  "queryReducer now s ((plainAction actionSuccess)\<lparr>updater := u\<rparr>) =
     Inr (s\<lparr>status := ''success'', data := functionalUpdate u (data s), error := JNull,
            isStale := False, isFetching := False, canFetchMore := JUndefined,
            updatedAt := now, failureCount := 0,
            isLoading := JBool False, isSuccess := JBool True,
            isError := JBool False, isIdle := JBool False\<rparr>)"
  by (simp add: queryReducer_def switchActions_def plainAction_def action_names status_names)

lemma queryReducer_Error:
  "queryReducer now s ((plainAction actionError)\<lparr>cancelled_a := c, error_a := err\<rparr>) =
     Inr (if c
          then s\<lparr>isFetching := False, isStale := True,
                 isLoading := JBool (status s = ''loading''),
                 isSuccess := JBool (status s = ''success''),
                 isError := JBool (status s = ''error''),
                 isIdle := JBool (status s = ''idle'')\<rparr>
          else s\<lparr>isFetching := False, isStale := True, status := ''error'', error := err,
                 isLoading := JBool False, isSuccess := JBool False,
                 isError := JBool True, isIdle := JBool False\<rparr>)"
  by (simp add: queryReducer_def switchActions_def plainAction_def action_names status_names)

lemmas reducer_simps = queryReducer_Failed queryReducer_MarkStale queryReducer_MarkGC
  queryReducer_Fetch queryReducer_Success queryReducer_Error

lemmas engine_defs = dispatch_def notifyGlobalListeners_def setData_def invalidate_def
  scheduleGarbageCollection_def heal_def cancelInterval_def cancel_def finish_def
  tryFetchData_def fetch_then_def fetch_catch_def tryFetchData_then_def tryFetchData_catch_def
  retryTimeout_def fetch_def setPhase_def phaseOf_def

subsection \<open>How a step ends\<close>

lemma setPhase_fields:
  "state (setPhase p ph q) = state q" "promise (setPhase p ph q) = promise q"
  "trace (setPhase p ph q) = trace q" "settled (setPhase p ph q) = settled q"
  "cancelled (setPhase p ph q) = cancelled q" "config (setPhase p ph q) = config q"
  by (simp_all add: setPhase_def)

lemma map_fst_setPhase: "map fst (activations (setPhase p ph q)) = map fst (activations q)"
  by (induction "activations q" arbitrary: q) (auto simp: setPhase_def split: prod.splits)

text \<open>
  Both ends of the body of \<^verbatim>\<open>query.fetch\<close> return, clear the flag and delete
  \<^verbatim>\<open>query.promise\<close>.
\<close>

lemma fetch_catch_ends:
  "\<exists>q'. fetch_catch now p err q = Inr q' \<and> \<not> isFetching (state q') \<and> promise q' = None
        \<and> activations q' = filter (\<lambda>(i, ph). i \<noteq> p) (activations q)"
  by (simp add: fetch_catch_def dispatch_def notifyGlobalListeners_def finish_def
      reducer_simps Let_def)

lemma fetch_then_ends:
  "\<exists>q'. fetch_then now p v q = Inr q' \<and> \<not> isFetching (state q') \<and> promise q' = None
        \<and> activations q' = filter (\<lambda>(i, ph). i \<noteq> p) (activations q)"
  by (simp add: fetch_then_def setData_def dispatch_def notifyGlobalListeners_def finish_def
      reducer_simps Let_def)

lemma tryFetchData_then_ends:
  "\<exists>q'. tryFetchData_then now p v q = Inr q' \<and> \<not> isFetching (state q') \<and> promise q' = None
        \<and> activations q' = filter (\<lambda>(i, ph). i \<noteq> p) (activations q)"
proof -
  let ?q1 = "q\<lparr>shouldContinueRetryOnFocus := False, cancelPromises := False\<rparr>"
  show ?thesis
    using fetch_catch_ends [of now p "cancelled ?q1" ?q1] fetch_then_ends [of now p v ?q1]
    by (simp add: tryFetchData_then_def Let_def)
qed

text \<open>
  A rejected attempt either ends the fetch or, when it is retried, leaves the flag, the
  promise and the running calls as they are.
\<close>

lemma tryFetchData_catch_cases:
  "\<exists>q'. tryFetchData_catch now vis p err q = Inr q' \<and>
     ((\<not> isFetching (state q') \<and> promise q' = None
        \<and> activations q' = filter (\<lambda>(i, ph). i \<noteq> p) (activations q))
      \<or> (isFetching (state q') = isFetching (state q) \<and> promise q' = promise q
        \<and> map fst (activations q') = map fst (activations q)))"
proof -
  let ?q1 = "q\<lparr>cancelPromises := False\<rparr>"
  let ?q2 = "notifyGlobalListeners
      (?q1\<lparr>state := (state ?q1)\<lparr>failureCount := failureCount (state ?q1) + 1,
            isLoading := JBool (status (state ?q1) = ''loading''),
            isSuccess := JBool (status (state ?q1) = ''success''),
            isError := JBool (status (state ?q1) = ''error''),
            isIdle := JBool (status (state ?q1) = ''idle'')\<rparr>\<rparr>)"
  have d: "dispatch now (plainAction actionFailed) ?q1 = Inr ?q2"
    by (simp add: dispatch_def reducer_simps)
  have a: "activations ?q2 = activations q" "isFetching (state ?q2) = isFetching (state q)"
      "promise ?q2 = promise q"
    by (simp_all add: notifyGlobalListeners_def)
  show ?thesis
    using fetch_catch_ends [of now p "cancelled ?q1" ?q1] fetch_catch_ends [of now p err ?q2] a
    apply (simp add: tryFetchData_catch_def Let_def d del: One_nat_def)
    apply (auto simp: map_fst_setPhase setPhase_fields)
    done
qed

lemma retryTimeout_cases:
  "\<exists>q'. retryTimeout now p q = Inr q' \<and>
     ((\<not> isFetching (state q') \<and> promise q' = None
        \<and> activations q' = filter (\<lambda>(i, ph). i \<noteq> p) (activations q))
      \<or> (isFetching (state q') = isFetching (state q) \<and> promise q' = promise q
        \<and> map fst (activations q') = map fst (activations q)))"
  using fetch_catch_ends [of now p "cancelled q" q]
  by (auto simp: retryTimeout_def map_fst_setPhase setPhase_fields tryFetchData_def)

subsection \<open>The flag and the promise\<close>

lemma fetch_consistent:
  assumes "promise q = None" "activations q = []"
  shows "\<exists>q'. fetch now q = Inr q' \<and> consistent q'"
  using assms
  by (simp add: fetch_def dispatch_def notifyGlobalListeners_def tryFetchData_def
      reducer_simps consistent_def)

lemma phaseOf_consistent:
  assumes "consistent q" "phaseOf q p = Some ph"
  shows "promise q = Some p \<and> isFetching (state q) \<and> activations q = [(p, ph)]"
  using assms
  by (cases "activations q")
    (auto simp: consistent_def phaseOf_def split: option.splits if_splits)

lemma kept_consistent:
  assumes "consistent q" "isFetching (state q') = isFetching (state q)"
    "promise q' = promise q" "map fst (activations q') = map fst (activations q)"
  shows "consistent q'"
  using assms by (simp add: consistent_def split: option.splits)

lemma step_consistent:
  assumes "consistent q" "lifecycle ev"
  shows "\<exists>q'. step now ev q = Inr q' \<and> consistent q'"
proof (cases ev)
  case EvFetch
  show ?thesis
  proof (cases "promise q")
    case None
    with assms(1) have "activations q = []" by (simp add: consistent_def)
    with None EvFetch show ?thesis using fetch_consistent [of q now] by simp
  next
    case (Some p)
    with EvFetch assms(1) show ?thesis by (simp add: fetch_def)
  qed
next
  case (EvResolved p v)
  show ?thesis
  proof (cases "phaseOf q p = Some AwaitAttempt")
    case True
    from phaseOf_consistent [OF assms(1) True] tryFetchData_then_ends [of now p v q]
    show ?thesis using EvResolved True by (auto simp: consistent_def)
  next
    case False
    with EvResolved assms(1) show ?thesis by simp
  qed
next
  case (EvRejected p err vis)
  show ?thesis
  proof (cases "phaseOf q p = Some AwaitAttempt")
    case True
    from phaseOf_consistent [OF assms(1) True] tryFetchData_catch_cases [of now vis p err q]
    show ?thesis using EvRejected True assms(1) by (auto simp: consistent_def)
  next
    case False
    with EvRejected assms(1) show ?thesis by simp
  qed
next
  case (EvRetryTimer p)
  show ?thesis
  proof (cases "phaseOf q p = Some AwaitTimer")
    case True
    from phaseOf_consistent [OF assms(1) True] retryTimeout_cases [of now p q]
    show ?thesis using EvRetryTimer True assms(1) by (auto simp: consistent_def)
  next
    case False
    with EvRetryTimer assms(1) show ?thesis by simp
  qed
next
  case EvInvalidate
  then show ?thesis using assms(1)
    by (auto simp: invalidate_def dispatch_def notifyGlobalListeners_def reducer_simps
        intro: kept_consistent)
next
  case EvMarkGC
  then show ?thesis using assms(1)
    by (auto simp: scheduleGarbageCollection_def dispatch_def notifyGlobalListeners_def
        reducer_simps intro: kept_consistent)
next
  case EvHeal
  then show ?thesis using assms(1)
    by (auto simp: heal_def intro: kept_consistent)
qed (use assms in auto)

lemma run_consistent:
  assumes "consistent q" "\<forall>e\<in>set evs. lifecycle (snd e)"
  shows "\<exists>q'. run q evs = Inr q' \<and> consistent q'"
  using assms
proof (induction evs arbitrary: q)
  case Nil
  then show ?case by simp
next
  case (Cons e evs)
  obtain now ev where e: "e = (now, ev)" by (cases e)
  with Cons.prems have "lifecycle ev" by simp
  from step_consistent [OF Cons.prems(1) this, of now]
  obtain q1 where q1: "step now ev q = Inr q1" "consistent q1" by blast
  from Cons.IH [OF q1(2)] Cons.prems(2) obtain q' where "run q1 evs = Inr q'" "consistent q'"
    by auto
  with q1 e show ?case by simp
qed

lemma consistent_iff: "consistent q \<Longrightarrow> isFetching (state q) = (promise q \<noteq> None)"
  by (auto simp: consistent_def split: option.splits)

text \<open>
  C3, as the claim states it, fails: \<^verbatim>\<open>cancel\<close> deletes \<^verbatim>\<open>query.promise\<close> and dispatches
  nothing, so after a fetch start and a cancel the new entry is still fetching and has no
  promise.
\<close>

theorem isFetching_without_promise_after_cancel:
  "observe (isFetching \<circ> state) (runNew 0 exampleConfig [(1, EvFetch), (2, EvCancel)]) = Some True
   \<and> observe promise (runNew 0 exampleConfig [(1, EvFetch), (2, EvCancel)]) = Some None"
  by (simp add: observe_def runNew_def makeQuery_def exampleConfig_def queryReducer_def
      switchActions_def plainAction_def action_names status_names engine_defs Let_def)

text \<open>
  C3, amended. On an entry with nothing in flight (no promise, no running call of the
  fetch body), a fetch start followed by any events other than cancel, \<^verbatim>\<open>setData\<close> and
  \<^verbatim>\<open>setState\<close> (further fetch calls, attempts resolving or rejecting, retried or not, retry
  timers, invalidation, GC marking, healing) never throws and leaves \<^verbatim>\<open>state.isFetching\<close>
  true iff \<^verbatim>\<open>query.promise\<close> is set. Cancel itself deletes the promise and leaves the
  state, \<^verbatim>\<open>isFetching\<close> included, as it was.
\<close>

theorem isFetching_iff_promise:
  assumes "promise q = None" "activations q = []" "\<forall>e\<in>set evs. lifecycle (snd e)"
  shows "(\<exists>q'. run q ((now, EvFetch) # evs) = Inr q'
            \<and> isFetching (state q') = (promise q' \<noteq> None))
       \<and> promise (cancel q0) = None \<and> state (cancel q0) = state q0"
proof -
  from fetch_consistent [OF assms(1,2), of now] obtain q1 where
    q1: "fetch now q = Inr q1" "consistent q1" by blast
  from run_consistent [OF q1(2) assms(3)] obtain q' where "run q1 evs = Inr q'" "consistent q'"
    by blast
  with q1 have "\<exists>q'. run q ((now, EvFetch) # evs) = Inr q'
            \<and> isFetching (state q') = (promise q' \<noteq> None)"
    by (auto simp: consistent_iff)
  moreover have "promise (cancel q0) = None \<and> state (cancel q0) = state q0"
    by (simp add: cancel_def cancelInterval_def notifyGlobalListeners_def Let_def)
  ultimately show ?thesis by simp
qed

theorem isFetching_iff_promise_witness:
  "\<exists>q q'. makeQuery 0 exampleConfig = Inr q
      \<and> run q [(1, EvFetch), (2, EvRejected 1 (JStr ''down'') True), (3, EvFetch),
                (4, EvRetryTimer 1), (5, EvInvalidate), (6, EvResolved 1 (JNum 5))] = Inr q'
      \<and> isFetching (state q') = (promise q' \<noteq> None)"
proof -
  obtain q where q: "makeQuery 0 exampleConfig = Inr q" "promise q = None" "activations q = []"
    using makeQuery_new [of 0 exampleConfig] by blast
  have "\<forall>e\<in>set [(2, EvRejected 1 (JStr ''down'') True), (3, EvFetch), (4, EvRetryTimer 1),
                  (5, EvInvalidate), (6, EvResolved 1 (JNum 5))]. lifecycle (snd e)"
    by simp
  from isFetching_iff_promise [OF q(2,3) this, of 1] q(1) show ?thesis by blast
qed

subsection \<open>No step throws\<close>

text \<open>
  The engine dispatches actions of known types only, so the exception of the reducer
  never arises in a step, but for \<^verbatim>\<open>setState\<close> called without an updater, which throws
  a TypeError.
\<close>

lemma setState_without_updater: "step now (EvSetState None) q = Inl TypeError_thrown"
  by (simp add: setState_def dispatch_def queryReducer_def switchActions_def plainAction_def
      action_names)

lemma step_returns:
  assumes "ev \<noteq> EvSetState None"
  shows "\<exists>q'. step now ev q = Inr q'"
proof (cases ev)
  case (EvResolved p v)
  then show ?thesis using tryFetchData_then_ends [of now p v q] by auto
next
  case (EvRejected p err vis)
  then show ?thesis using tryFetchData_catch_cases [of now vis p err q] by auto
next
  case (EvRetryTimer p)
  then show ?thesis using retryTimeout_cases [of now p q] by auto
next
  case (EvSetState u)
  with assms obtain f where "u = Some f" by (cases u) auto
  with EvSetState show ?thesis
    by (simp add: setState_def dispatch_def queryReducer_def switchActions_def plainAction_def
        action_names)
qed (auto simp: fetch_def dispatch_def reducer_simps setData_def invalidate_def
    scheduleGarbageCollection_def split: option.splits)

lemma run_returns:
  assumes "\<forall>e\<in>set evs. snd e \<noteq> EvSetState None"
  shows "\<exists>q'. run q evs = Inr q'"
  using assms
proof (induction evs arbitrary: q)
  case Nil
  then show ?case by simp
next
  case (Cons e evs)
  obtain now ev where e: "e = (now, ev)" by (cases e)
  with Cons.prems have "ev \<noteq> EvSetState None" by simp
  then obtain q1 where "step now ev q = Inr q1" using step_returns by blast
  with Cons.IH [of q1] Cons.prems e show ?case by auto
qed

subsection \<open>Where \<^verbatim>\<open>updatedAt\<close> changes\<close>

lemma fetch_catch_updatedAt:
  "fetch_catch now p err q = Inr q' \<Longrightarrow> updatedAt (state q') = updatedAt (state q)"
  by (auto simp: fetch_catch_def dispatch_def notifyGlobalListeners_def finish_def
      reducer_simps Let_def)

text \<open>
  In a run, \<^verbatim>\<open>updatedAt\<close> changes only where data are committed (an attempt resolves, or
  \<^verbatim>\<open>setData\<close> is called) or where \<^verbatim>\<open>setState\<close> replaces the state.
\<close>

lemma updatedAt_step:
  assumes "step now ev q = Inr q'" "updatedAt (state q') \<noteq> updatedAt (state q)"
  shows "(\<exists>p v. ev = EvResolved p v) \<or> (\<exists>u. ev = EvSetData u) \<or> (\<exists>u. ev = EvSetState u)"
proof (cases ev)
  case EvFetch
  with assms show ?thesis
    by (auto simp: fetch_def dispatch_def notifyGlobalListeners_def tryFetchData_def
        reducer_simps split: option.splits)
next
  case (EvRejected p err vis)
  with assms show ?thesis
    by (auto simp: tryFetchData_catch_def dispatch_def notifyGlobalListeners_def reducer_simps
        setPhase_fields Let_def dest: fetch_catch_updatedAt split: if_splits)
next
  case (EvRetryTimer p)
  with assms show ?thesis
    by (auto simp: retryTimeout_def tryFetchData_def setPhase_fields
        dest: fetch_catch_updatedAt split: if_splits)
next
  case EvCancel
  with assms show ?thesis
    by (auto simp: cancel_def cancelInterval_def notifyGlobalListeners_def Let_def
        split: if_splits)
next
  case EvInvalidate
  with assms show ?thesis
    by (auto simp: invalidate_def dispatch_def notifyGlobalListeners_def reducer_simps)
next
  case EvMarkGC
  with assms show ?thesis
    by (auto simp: scheduleGarbageCollection_def dispatch_def notifyGlobalListeners_def
        reducer_simps split: if_splits)
next
  case EvHeal
  with assms show ?thesis by (auto simp: heal_def)
qed auto

subsection \<open>Deduplication\<close>













subsection \<open>Retries\<close>

text \<open>
  With \<^verbatim>\<open>retry = 2\<close>, the document visible and no cancellation, a fetch whose operation
  rejects on every attempt ends after the third attempt with \<^verbatim>\<open>failureCount = 3\<close>; when
  the last rejection is not \<^verbatim>\<open>null\<close>, the status is \<^verbatim>\<open>'error'\<close>, the error is that
  rejection and the promise of the fetch rejects with it.
\<close>

lemma retry_bound:
  assumes "promise q = None" "activations q = []" "retry (config q) = RetryNum 2"
    and "err3 \<noteq> JNull" "p = nextPromise q"
  shows "\<exists>q'. run q [(t0, EvFetch), (t1, EvRejected p err1 True), (t2, EvRetryTimer p),
                      (t3, EvRejected p err2 True), (t4, EvRetryTimer p),
                      (t5, EvRejected p err3 True)] = Inr q'
           \<and> failureCount (state q') = 3 \<and> status (state q') = ''error''
           \<and> error (state q') = err3
           \<and> calls q' = calls q + 3
           \<and> promise q' = None \<and> activations q' = []
           \<and> settled q' = (p, Rejected err3) # settled q"
  using assms
  by (simp add: engine_defs reducer_simps calls_def Let_def)

text \<open>
  C4. The claim: with \<^verbatim>\<open>retry = 2\<close> and an operation that rejects on every attempt the
  operation is called three times and the entry ends with \<^verbatim>\<open>failureCount = 3\<close> and status
  \<^verbatim>\<open>'error'\<close>. The code on an operation that rejects with \<^verbatim>\<open>null\<close>: three calls and
  \<^verbatim>\<open>failureCount = 3\<close>, but \<^verbatim>\<open>query.cancelled\<close> is \<^verbatim>\<open>null\<close> since the fetch start, so
  \<^verbatim>\<open>error === query.cancelled\<close> holds, the Error action is dispatched as cancelled, the
  status stays \<^verbatim>\<open>'loading'\<close> and the promise of the fetch resolves with \<^verbatim>\<open>undefined\<close>.
\<close>

theorem null_rejection_taken_for_cancellation:
  "observe calls (runNew 0 exampleConfig (threeFailures 1 JNull)) = Some 3
   \<and> observe (failureCount \<circ> state) (runNew 0 exampleConfig (threeFailures 1 JNull)) = Some 3
   \<and> observe (status \<circ> state) (runNew 0 exampleConfig (threeFailures 1 JNull)) = Some ''loading''
   \<and> observe (error \<circ> state) (runNew 0 exampleConfig (threeFailures 1 JNull)) = Some JNull
   \<and> observe settled (runNew 0 exampleConfig (threeFailures 1 JNull))
       = Some [(1, Resolved JUndefined)]"
  by (simp add: observe_def runNew_def threeFailures_def makeQuery_def exampleConfig_def
      queryReducer_def switchActions_def plainAction_def action_names status_names
      engine_defs calls_def Let_def)

theorem null_rejection_taken_for_cancellation_witness:
  "observe (status \<circ> state) (runNew 0 exampleConfig (threeFailures 1 JNull)) \<noteq> Some ''error''"
  using null_rejection_taken_for_cancellation by simp

subsection \<open>Cancellation\<close>

text \<open>
  C8, as the claim states it, fails: cancel on an entry with no in-flight operation is
  not without effect. On the new entry that \<^verbatim>\<open>buildQuery\<close> returns for a configuration
  with a refetch interval, it clears the interval (and notifies the cache listeners).
\<close>

theorem cancel_clears_interval:
  "observe promise (buildQuery 0 7 intervalConfig None) = Some None
   \<and> observe refetchIntervalId (buildQuery 0 7 intervalConfig None) = Some (Some 7)
   \<and> observe (refetchIntervalId \<circ> cancel) (buildQuery 0 7 intervalConfig None) = Some None
   \<and> observe trace (buildQuery 0 7 intervalConfig None) = Some []
   \<and> observe (trace \<circ> cancel) (buildQuery 0 7 intervalConfig None)
       = Some [GlobalListenersNotified]"
  by (simp add: observe_def buildQuery_def makeQuery_def queryReducer_def switchActions_def
      plainAction_def action_names status_names Let_def intervalConfig_def exampleConfig_def
      cancelInterval_def cancel_def notifyGlobalListeners_def)

text \<open>
  C8, amended. Cancel never changes the visible state and always leaves the entry
  without a promise. On an entry with no in-flight operation it changes nothing of the
  entry but the cancellation marker (set) and the refetch interval (cleared). An entry
  cancelled twice has the same fields as the entry cancelled once. Every call, the second
  one too, calls the cancel hook when one is installed and notifies the cache listeners.
\<close>

theorem cancel_idempotent:
  "state (cancel q) = state q
   \<and> promise (cancel q) = None
   \<and> (promise q = None \<longrightarrow>
        cancel q = q\<lparr>cancelled := cancelledError, refetchIntervalId := None,
                     currentRefetchInterval := None, trace := trace (cancel q)\<rparr>)
   \<and> (cancel (cancel q))\<lparr>trace := t\<rparr> = (cancel q)\<lparr>trace := t\<rparr>
   \<and> trace (cancel q)
       = trace q @ (if cancelPromises q then [CancelHookCalled] else [])
           @ [GlobalListenersNotified]"
  by (auto simp: cancel_def cancelInterval_def notifyGlobalListeners_def Let_def)

theorem cancel_idempotent_witness:
  "\<exists>q. buildQuery 0 7 intervalConfig None = Inr q
      \<and> state (cancel q) = state q \<and> promise (cancel q) = None
      \<and> (cancel (cancel q))\<lparr>trace := []\<rparr> = (cancel q)\<lparr>trace := []\<rparr>
      \<and> trace (cancel q) = [GlobalListenersNotified]
      \<and> trace (cancel (cancel q)) = [GlobalListenersNotified, GlobalListenersNotified]"
proof -
  obtain q where q: "buildQuery 0 7 intervalConfig None = Inr q" "trace q = []"
      "cancelPromises q = False"
    by (simp add: buildQuery_def makeQuery_def queryReducer_def switchActions_def
        plainAction_def action_names status_names Let_def intervalConfig_def
        exampleConfig_def cancelInterval_def)
  have c: "cancelPromises (cancel q) = False"
    using q by (simp add: cancel_def cancelInterval_def notifyGlobalListeners_def Let_def)
  from cancel_idempotent [of q "[]"] cancel_idempotent [of "cancel q" "[]"] q c
  show ?thesis by auto
qed

subsection \<open>Prefetching\<close>

text \<open>
  C10. When the promise of the fetch that \<^verbatim>\<open>prefetchQuery\<close> waits for rejects and
  \<^verbatim>\<open>throwOnError\<close> is not set, \<^verbatim>\<open>prefetchQuery\<close> resolves with the \<^verbatim>\<open>state.data\<close> the
  entry has then; with \<^verbatim>\<open>throwOnError\<close> set it rejects with the error of the fetch. It
  rejects only with \<^verbatim>\<open>throwOnError\<close> set and a rejected fetch.
\<close>

theorem prefetchQuery_swallows_error:
  "(map_of (settled q) p = Some (Rejected err) \<longrightarrow>
       prefetchQuery_then False p q = Some (Resolved (data (state q)))
     \<and> prefetchQuery_then True p q = Some (Rejected err))
   \<and> (prefetchQuery_then t p q = Some (Rejected err) \<longrightarrow>
        t \<and> map_of (settled q) p = Some (Rejected err))"
  by (auto simp: prefetchQuery_then_def split: option.splits outcome.splits if_splits)

theorem prefetchQuery_swallows_error_witness:
  "\<exists>q0 q. prefetchQuery 1 0 exampleConfig None = Inr q0 \<and> promise q0 = Some 1
      \<and> run q0 (tl (threeFailures 1 (JStr ''down''))) = Inr q
      \<and> prefetchQuery_then False 1 q = Some (Resolved JUndefined)
      \<and> prefetchQuery_then True 1 q = Some (Rejected (JStr ''down''))"
proof -
  obtain q0 where q0: "prefetchQuery 1 0 exampleConfig None = Inr q0" "promise q0 = Some 1"
      "activations q0 = [(1, AwaitAttempt)]" "retry (config q0) = RetryNum 2"
      "cancelled q0 = JNull" "settled q0 = []" "data (state q0) = JUndefined"
      "failureCount (state q0) = 0"
    by (simp add: prefetchQuery_def buildQuery_def makeQuery_def queryReducer_def
        switchActions_def plainAction_def action_names status_names Let_def exampleConfig_def
        cancelInterval_def fetch_def dispatch_def notifyGlobalListeners_def tryFetchData_def)
  obtain q where q: "run q0 (tl (threeFailures 1 (JStr ''down''))) = Inr q"
      "map_of (settled q) 1 = Some (Rejected (JStr ''down''))" "data (state q) = JUndefined"
    using q0 by (simp add: threeFailures_def engine_defs reducer_simps Let_def)
  from prefetchQuery_swallows_error [of q 1 "JStr ''down''" True] q q0 show ?thesis by auto
qed

end
